theory Spec2Isabelle
  imports Main "HOL-Library.Sublist"
begin

section \<open>Python values, exceptions and responses\<close>

text \<open>
  The views of \<^verbatim>\<open>losb/api/v1/views.py\<close> receive \<^verbatim>\<open>request.data\<close>, the parsed JSON body of
  the request. A JSON object is an association list read with \<open>map_of\<close>, as a Python
  dict is read by key. Numbers are the integers: the identifiers and dates the bot
  platform sends are integers, and Python's \<^verbatim>\<open>int\<close> is unbounded.
\<close>

datatype json =
    JNull
  | JBool bool
  | JNum int
  | JStr string
  | JArr "json list"
  | JObj "(string \<times> json) list"

text \<open>
  Every \<^verbatim>\<open>raise\<close> of the views, and every exception raised by an expression they evaluate,
  is a value. The first group are Python's built-in exceptions and Django's, the second
  the API exceptions of \<^verbatim>\<open>losb.api.v1.exceptions\<close> and of the REST framework.
\<close>

datatype exn =
    KeyError string
  | TypeError
  | AttributeError
  | ValueError
  | IndexError
  | MultipleObjectsReturned
  | DataError
  | ValidationError
  | BirthdayAlreadyRegistered
  | SmsDeliveryError string
  | NoPendingVerification
  | CodeMismatch

record response =
  data :: json
  status :: nat

text \<open>\<^verbatim>\<open>key in container\<close>: a dict is searched by key, a list by element, a string for a
  substring; any other JSON value is not iterable.\<close>

fun py_contains :: "string \<Rightarrow> json \<Rightarrow> exn + bool" where
  "py_contains k (JObj kvs) = Inr (k \<in> set (map fst kvs))"
| "py_contains k (JArr xs) = Inr (JStr k \<in> set xs)"
| "py_contains k (JStr s) = Inr (sublist k s)"
| "py_contains k JNull = Inl TypeError"
| "py_contains k (JBool b) = Inl TypeError"
| "py_contains k (JNum n) = Inl TypeError"

text \<open>\<^verbatim>\<open>container[key]\<close> with a string key: a dict raises KeyError on a missing key; a
  list or a string takes integer indices only, and the other values are not
  subscriptable, which is a TypeError in both cases.\<close>

fun py_getitem :: "json \<Rightarrow> string \<Rightarrow> exn + json" where
  "py_getitem (JObj kvs) k = (case map_of kvs k of None \<Rightarrow> Inl (KeyError k) | Some v \<Rightarrow> Inr v)"
| "py_getitem (JArr xs) k = Inl TypeError"
| "py_getitem (JStr s) k = Inl TypeError"
| "py_getitem JNull k = Inl TypeError"
| "py_getitem (JBool b) k = Inl TypeError"
| "py_getitem (JNum n) k = Inl TypeError"

text \<open>\<^verbatim>\<open>container.get(key, default)\<close>: only a dict has the method.\<close>

fun py_get :: "json \<Rightarrow> string \<Rightarrow> json \<Rightarrow> exn + json" where
  "py_get (JObj kvs) k d = Inr (case map_of kvs k of None \<Rightarrow> d | Some v \<Rightarrow> v)"
| "py_get (JArr xs) k d = Inl AttributeError"
| "py_get (JStr s) k d = Inl AttributeError"
| "py_get JNull k d = Inl AttributeError"
| "py_get (JBool b) k d = Inl AttributeError"
| "py_get (JNum n) k d = Inl AttributeError"

section \<open>Timestamps\<close>

text \<open>
  An aware \<^verbatim>\<open>datetime\<close> whose zone is \<^verbatim>\<open>timezone.utc\<close> is an instant of the UTC time
  line, identified by its number of seconds since 1970-01-01T00:00:00Z. The type holds
  the years 1 to 9999 only: \<open>MIN_TIMESTAMP\<close> is 0001-01-01T00:00:00Z and
  \<open>MAX_TIMESTAMP\<close> is 9999-12-31T23:59:59Z.
\<close>

datatype datetime = UTC int

definition MIN_TIMESTAMP :: int where
  "MIN_TIMESTAMP = - 62135596800"

definition MAX_TIMESTAMP :: int where
  "MAX_TIMESTAMP = 253402300799"

text \<open>\<^verbatim>\<open>datetime.fromtimestamp(x, tz=timezone.utc)\<close>: \<^verbatim>\<open>x\<close> must be a number (\<^verbatim>\<open>bool\<close> is a
  subclass of \<^verbatim>\<open>int\<close>); a number outside the range of the type raises (ValueError for a
  year out of range; farther out Python raises OverflowError or OSError instead, which
  the model does not tell apart from it).\<close>

fun fromtimestamp :: "json \<Rightarrow> exn + datetime" where
  "fromtimestamp (JNum n) =
     (if MIN_TIMESTAMP \<le> n \<and> n \<le> MAX_TIMESTAMP then Inr (UTC n) else Inl ValueError)"
| "fromtimestamp (JBool b) = Inr (UTC (if b then 1 else 0))"
| "fromtimestamp JNull = Inl TypeError"
| "fromtimestamp (JStr s) = Inl TypeError"
| "fromtimestamp (JArr xs) = Inl TypeError"
| "fromtimestamp (JObj kvs) = Inl TypeError"

section \<open>The message log and the webhook\<close>

text \<open>
  \<^verbatim>\<open>MessageLog\<close> is a table of rows. Its declaration (\<^verbatim>\<open>losb/models.py\<close>) is not among
  the sources, so the column types are parameters of the model: \<open>chat_field\<close> and
  \<open>text_field\<close> turn the Python value handed to the column into the stored value, or
  raise when the column does not take it.
\<close>

record ('k, 't) MessageLog =
  chat_id :: 'k
  log_text :: 't
  sent_at :: datetime

text \<open>
  \<^verbatim>\<open>MessageLog.objects.update_or_create(chat_id=chat_id, defaults={...})\<close>: the rows with
  that \<^verbatim>\<open>chat_id\<close> are looked up; with none a row is created, with one its \<^verbatim>\<open>defaults\<close>
  columns are overwritten, with several Django raises \<^verbatim>\<open>MultipleObjectsReturned\<close>.
\<close>

definition update_or_create ::
  "(json \<Rightarrow> exn + 'k) \<Rightarrow> (json \<Rightarrow> exn + 't) \<Rightarrow> json \<Rightarrow> json \<Rightarrow> datetime \<Rightarrow>
   ('k, 't) MessageLog list \<Rightarrow> exn + ('k, 't) MessageLog list" where
  "update_or_create chat_field text_field cid txt ts rows =
     (case chat_field cid of
        Inl e \<Rightarrow> Inl e
      | Inr k \<Rightarrow>
          (case filter (\<lambda>r. chat_id r = k) rows of
             [] \<Rightarrow>
               (case text_field txt of
                  Inl e \<Rightarrow> Inl e
                | Inr t \<Rightarrow> Inr (rows @ [\<lparr>chat_id = k, log_text = t, sent_at = ts\<rparr>]))
           | [r0] \<Rightarrow>
               (case text_field txt of
                  Inl e \<Rightarrow> Inl e
                | Inr t \<Rightarrow>
                    Inr (map (\<lambda>r. if chat_id r = k then r\<lparr>log_text := t, sent_at := ts\<rparr> else r)
                           rows))
           | r0 # r1 # rs \<Rightarrow> Inl MultipleObjectsReturned))"

definition ok_response :: response where
  "ok_response = \<lparr>data = JObj [(''status'', JStr ''ok'')], status = 200\<rparr>"

text \<open>
  \<^verbatim>\<open>TelegramWebhookAPIView.post\<close>. The result is the response, or the exception that
  leaves the view, together with the table after the request. No statement of the view
  is inside a \<^verbatim>\<open>try\<close>, so an exception of any step leaves the view, and the table is
  written by the last step only.
\<close>

definition TelegramWebhookAPIView_post ::
  "(json \<Rightarrow> exn + 'k) \<Rightarrow> (json \<Rightarrow> exn + 't) \<Rightarrow> json \<Rightarrow> ('k, 't) MessageLog list \<Rightarrow>
   (exn + response) \<times> ('k, 't) MessageLog list" where
  "TelegramWebhookAPIView_post chat_field text_field update rows =
     (case py_contains ''message'' update of
        Inl e \<Rightarrow> (Inl e, rows)
      | Inr False \<Rightarrow> (Inr ok_response, rows)
      | Inr True \<Rightarrow>
          (case py_getitem update ''message'' of
             Inl e \<Rightarrow> (Inl e, rows)
           | Inr message \<Rightarrow>
          (case py_getitem message ''chat'' of
             Inl e \<Rightarrow> (Inl e, rows)
           | Inr chat \<Rightarrow>
          (case py_getitem chat ''id'' of
             Inl e \<Rightarrow> (Inl e, rows)
           | Inr cid \<Rightarrow>
          (case py_get message ''text'' (JStr '''') of
             Inl e \<Rightarrow> (Inl e, rows)
           | Inr txt \<Rightarrow>
          (case py_getitem message ''date'' of
             Inl e \<Rightarrow> (Inl e, rows)
           | Inr date \<Rightarrow>
          (case fromtimestamp date of
             Inl e \<Rightarrow> (Inl e, rows)
           | Inr timestamp \<Rightarrow>
          (case update_or_create chat_field text_field cid txt timestamp rows of
             Inl e \<Rightarrow> (Inl e, rows)
           | Inr rows' \<Rightarrow> (Inr ok_response, rows')))))))))"


text \<open>
  One declaration of the table that the spec's words allow (a chat identifier is an
  integer, a text a string), used to run the model on concrete payloads.
\<close>

fun integer_column :: "json \<Rightarrow> exn + int" where
  "integer_column (JNum n) = Inr n"
| "integer_column v = Inl ValueError"

fun text_column :: "json \<Rightarrow> exn + string" where
  "text_column (JStr s) = Inr s"
| "text_column v = Inl ValueError"



subsection \<open>What a request writes\<close>

text \<open>
  The values the view has extracted when it reaches \<^verbatim>\<open>update_or_create\<close>: \<open>None\<close> for a
  payload without message, an exception when a step before the write raises.
\<close>

definition message_fields :: "json \<Rightarrow> exn + (json \<times> json \<times> datetime) option" where
  "message_fields update =
     (case py_contains ''message'' update of
        Inl e \<Rightarrow> Inl e
      | Inr False \<Rightarrow> Inr None
      | Inr True \<Rightarrow>
          (case py_getitem update ''message'' of
             Inl e \<Rightarrow> Inl e
           | Inr message \<Rightarrow>
          (case py_getitem message ''chat'' of
             Inl e \<Rightarrow> Inl e
           | Inr chat \<Rightarrow>
          (case py_getitem chat ''id'' of
             Inl e \<Rightarrow> Inl e
           | Inr cid \<Rightarrow>
          (case py_get message ''text'' (JStr '''') of
             Inl e \<Rightarrow> Inl e
           | Inr txt \<Rightarrow>
          (case py_getitem message ''date'' of
             Inl e \<Rightarrow> Inl e
           | Inr date \<Rightarrow>
          (case fromtimestamp date of
             Inl e \<Rightarrow> Inl e
           | Inr timestamp \<Rightarrow> Inr (Some (cid, txt, timestamp)))))))))"




section \<open>The one-time code\<close>

text \<open>
  \<^verbatim>\<open>SystemRandom().choice(seq)\<close> returns \<^verbatim>\<open>seq[i]\<close> for an index \<^verbatim>\<open>i\<close> below \<^verbatim>\<open>len(seq)\<close>
  that the operating system's entropy source picks, and raises IndexError on an empty
  sequence. The source is an input of the model: \<open>r\<close> is what it delivers for this call,
  reduced to an index. Which values it delivers, and how they are distributed, is outside
  the model.
\<close>

definition choice :: "'a list \<Rightarrow> nat \<Rightarrow> exn + 'a" where
  "choice seq r = (if seq = [] then Inl IndexError else Inr (seq ! (r mod length seq)))"

text \<open>
  \<^verbatim>\<open>"".join(SystemRandom().choice('123456789') for _ in range(n))\<close>: one call of \<^verbatim>\<open>choice\<close>
  per element of the range, the \<open>i\<close>-th on the \<open>i\<close>-th delivery \<open>draw i\<close> of the source.
\<close>

fun join_choices :: "(nat \<Rightarrow> nat) \<Rightarrow> nat list \<Rightarrow> exn + string" where
  "join_choices draw [] = Inr []"
| "join_choices draw (i # is) =
     (case choice ''123456789'' (draw i) of
        Inl e \<Rightarrow> Inl e
      | Inr c \<Rightarrow> (case join_choices draw is of Inl e \<Rightarrow> Inl e | Inr s \<Rightarrow> Inr (c # s)))"

text \<open>\<^verbatim>\<open>UserPhoneUpdateView.get_otp\<close>; \<^verbatim>\<open>settings.SMS_VERIFICATION_CODE_DIGITS\<close> is a
  parameter, and \<^verbatim>\<open>range(n)\<close> is empty for \<^verbatim>\<open>n <= 0\<close>.\<close>

definition get_otp :: "(nat \<Rightarrow> nat) \<Rightarrow> int \<Rightarrow> exn + string" where
  "get_otp draw SMS_VERIFICATION_CODE_DIGITS =
     join_choices draw [0..<nat SMS_VERIFICATION_CODE_DIGITS]"

section \<open>Users and phones\<close>

text \<open>
  \<^verbatim>\<open>PositiveSmallIntegerField\<close>: Django guarantees the values from 0 to 32767 on every
  database it supports, and the column it creates is a 16-bit integer with a check
  against negative values. The model is a database that enforces the column's range:
  a value outside it is refused.
\<close>

definition PositiveSmallIntegerField :: "int \<Rightarrow> exn + int" where
  "PositiveSmallIntegerField v = (if 0 \<le> v \<and> v \<le> 32767 then Inr v else Inl DataError)"

text \<open>The \<^verbatim>\<open>Phone\<close> table of \<^verbatim>\<open>migrations/0001_initial.py\<close>: \<^verbatim>\<open>code\<close> and \<^verbatim>\<open>phone\<close> are both
  \<^verbatim>\<open>PositiveSmallIntegerField\<close>.\<close>

record Phone =
  code :: int
  phone :: int

text \<open>Saving a row with the given column values.\<close>

definition Phone_save :: "int \<Rightarrow> int \<Rightarrow> exn + Phone" where
  "Phone_save c p =
     (case PositiveSmallIntegerField c of
        Inl e \<Rightarrow> Inl e
      | Inr c' \<Rightarrow>
          (case PositiveSmallIntegerField p of
             Inl e \<Rightarrow> Inl e
           | Inr p' \<Rightarrow> Inr \<lparr>code = c', phone = p'\<rparr>))"

text \<open>The fields of \<^verbatim>\<open>request.user\<close> that the views read and write.\<close>

record User =
  telegram_id :: string
  birthday :: "datetime option"
  user_phone :: "Phone option"

section \<open>The birthday view\<close>

text \<open>
  \<^verbatim>\<open>UserBirthdayAPIView.post\<close>. The serializers are not among the sources and are
  parameters: \<open>UserBirthdaySerializer\<close> is \<^verbatim>\<open>is_valid(raise_exception=True)\<close> followed by
  \<^verbatim>\<open>validated_data\<close>, which holds no birthday (\<open>None\<close>), a null one (\<open>Some None\<close>) or a
  date; \<^verbatim>\<open>serializer.update\<close> sets the attributes that \<^verbatim>\<open>validated_data\<close> holds.
  A date is truthy and \<^verbatim>\<open>None\<close> is not, so \<^verbatim>\<open>if self.request.user.birthday\<close> tests that the
  field is set.
\<close>

definition UserBirthdayAPIView_post ::
  "(json \<Rightarrow> exn + datetime option option) \<Rightarrow> (User \<Rightarrow> json) \<Rightarrow> json \<Rightarrow> User \<Rightarrow>
   (exn + response) \<times> User" where
  "UserBirthdayAPIView_post UserBirthdaySerializer UserSerializer body user =
     (if birthday user \<noteq> None then (Inl BirthdayAlreadyRegistered, user)
      else
        (case UserBirthdaySerializer body of
           Inl e \<Rightarrow> (Inl e, user)
         | Inr validated_data \<Rightarrow>
             (let user' = (case validated_data of None \<Rightarrow> user | Some b \<Rightarrow> user\<lparr>birthday := b\<rparr>)
              in (Inr \<lparr>data = UserSerializer user', status = 200\<rparr>, user'))))"

text \<open>Requests served one after the other: their results, and the user after the last.\<close>

fun birthday_requests ::
  "(json \<Rightarrow> exn + datetime option option) \<Rightarrow> (User \<Rightarrow> json) \<Rightarrow> json list \<Rightarrow> User \<Rightarrow>
   (exn + response) list \<times> User" where
  "birthday_requests S U [] user = ([], user)"
| "birthday_requests S U (body # bodies) user =
     (case UserBirthdayAPIView_post S U body user of
        (r, user') \<Rightarrow>
          (case birthday_requests S U bodies user' of (rs, user'') \<Rightarrow> (r # rs, user'')))"

section \<open>Phone verification\<close>

text \<open>
  The state of the verification workflow for one authenticated user: \<^verbatim>\<open>request.user\<close> and
  the user's pending verification, if there is one.
\<close>

record PendingVerification =
  pv_otp :: string
  pv_code :: int
  pv_number :: int
  issued_at :: int

record account =
  user :: User
  pending :: "PendingVerification option"

text \<open>
  Modelled from the spec: \<^verbatim>\<open>SmsVerificationService.request_verification\<close>
  (\<^verbatim>\<open>losb/api/v1/services/sms_verification.py\<close> is not among the sources). It generates a
  code with the generator, has the gateway deliver it to the candidate number, and
  records the pending verification, which replaces an earlier one. When the gateway
  fails, with a cause, the operation fails with the delivery error that carries the
  cause, and no pending verification is committed. \<open>send_sms\<close> is the gateway's outcome:
  \<open>None\<close> for a delivered message, the cause of the failure otherwise.
\<close>

definition request_verification ::
  "(nat \<Rightarrow> nat) \<Rightarrow> int \<Rightarrow> (int \<Rightarrow> int \<Rightarrow> string \<Rightarrow> string option) \<Rightarrow> int \<Rightarrow>
   int \<Rightarrow> int \<Rightarrow> account \<Rightarrow> (exn + string) \<times> account" where
  "request_verification draw digits send_sms now c n acct =
     (case get_otp draw digits of
        Inl e \<Rightarrow> (Inl e, acct)
      | Inr otp \<Rightarrow>
          (case send_sms c n otp of
             Some cause \<Rightarrow> (Inl (SmsDeliveryError cause), acct)
           | None \<Rightarrow>
               (Inr otp,
                acct\<lparr>pending :=
                  Some \<lparr>pv_otp = otp, pv_code = c, pv_number = n, issued_at = now\<rparr>\<rparr>)))"

text \<open>
  Modelled from the spec: \<^verbatim>\<open>SmsVerificationService.verify_code\<close> (same missing file). It
  fails with \<open>NoPendingVerification\<close> when the user has no pending verification or it has
  expired, with \<open>CodeMismatch\<close> when the submitted code or the phone differ from the
  pending ones; otherwise it stores the phone on the user, in place of any earlier one,
  and clears the pending verification. The expiry policy is a parameter.
\<close>

definition verify_code ::
  "(PendingVerification \<Rightarrow> bool) \<Rightarrow> string \<Rightarrow> int \<Rightarrow> int \<Rightarrow> account \<Rightarrow>
   (exn + unit) \<times> account" where
  "verify_code expired otp c n acct =
     (case pending acct of
        None \<Rightarrow> (Inl NoPendingVerification, acct)
      | Some pv \<Rightarrow>
          if expired pv then (Inl NoPendingVerification, acct)
          else if otp \<noteq> pv_otp pv \<or> c \<noteq> pv_code pv \<or> n \<noteq> pv_number pv
            then (Inl CodeMismatch, acct)
          else (Inr (),
                acct\<lparr>user := (user acct)\<lparr>user_phone := Some \<lparr>code = c, phone = n\<rparr>\<rparr>,
                     pending := None\<rparr>))"

text \<open>
  \<^verbatim>\<open>UserPhoneUpdateView.post\<close>. The serializer and the service are parameters of the view.
  An \<^verbatim>\<open>SmsDeliveryError\<close> of the service is caught and raised again with the detail
  \<^verbatim>\<open>f"Failed to send SMS: {e}"\<close>; any other exception leaves the view as it is.
\<close>

definition UserPhoneUpdateView_post ::
  "(json \<Rightarrow> exn + int \<times> int) \<Rightarrow> (int \<Rightarrow> int \<Rightarrow> account \<Rightarrow> (exn + string) \<times> account) \<Rightarrow>
   json \<Rightarrow> account \<Rightarrow> (exn + response) \<times> account" where
  "UserPhoneUpdateView_post UserPhoneSerializer service_request_verification body acct =
     (case UserPhoneSerializer body of
        Inl e \<Rightarrow> (Inl e, acct)
      | Inr (c, n) \<Rightarrow>
          (case service_request_verification c n acct of
             (Inl (SmsDeliveryError e), acct') \<Rightarrow>
               (Inl (SmsDeliveryError (''Failed to send SMS: '' @ e)), acct')
           | (Inl e, acct') \<Rightarrow> (Inl e, acct')
           | (Inr verification_code, acct') \<Rightarrow>
               (Inr \<lparr>data = JObj [(''otp'', JStr verification_code)], status = 200\<rparr>, acct')))"

text \<open>
  \<^verbatim>\<open>UserPhoneUpdateView.patch\<close>: the validated body is handed to the service, and the
  response is the profile of \<^verbatim>\<open>request.user\<close> as the service left it.
\<close>

definition UserPhoneUpdateView_patch ::
  "(json \<Rightarrow> exn + string \<times> int \<times> int) \<Rightarrow>
   (string \<Rightarrow> int \<Rightarrow> int \<Rightarrow> account \<Rightarrow> (exn + unit) \<times> account) \<Rightarrow> (User \<Rightarrow> json) \<Rightarrow>
   json \<Rightarrow> account \<Rightarrow> (exn + response) \<times> account" where
  "UserPhoneUpdateView_patch UserPhoneVerificationSerializer service_verify_code UserSerializer
       body acct =
     (case UserPhoneVerificationSerializer body of
        Inl e \<Rightarrow> (Inl e, acct)
      | Inr (otp, c, n) \<Rightarrow>
          (case service_verify_code otp c n acct of
             (Inl e, acct') \<Rightarrow> (Inl e, acct')
           | (Inr u, acct') \<Rightarrow> (Inr \<lparr>data = UserSerializer (user acct'), status = 200\<rparr>, acct')))"

section \<open>The last message\<close>

text \<open>
  What \<^verbatim>\<open>WebhookLastMessageService.get_last_message\<close> returns beside the error: the
  mapping with the keys \<^verbatim>\<open>message\<close> and \<^verbatim>\<open>time\<close>, or \<^verbatim>\<open>None\<close>.
\<close>

record last_message_info =
  message :: json
  time :: datetime






section \<open>Serializers to run the views on\<close>

text \<open>
  The serializers of \<^verbatim>\<open>losb/api/v1/serializers.py\<close> are parameters of the views. These
  instances read the bodies that section 6 of the specification lists, and reject any
  other body; they are used to run the views on concrete requests.
\<close>

fun int_of_key :: "(string \<times> json) list \<Rightarrow> string \<Rightarrow> int option" where
  "int_of_key kvs k = (case map_of kvs k of Some (JNum n) \<Rightarrow> Some n | _ \<Rightarrow> None)"

fun UserBirthdaySerializer_example :: "json \<Rightarrow> exn + datetime option option" where
  "UserBirthdaySerializer_example (JObj kvs) =
     (case int_of_key kvs ''birthday'' of
        Some n \<Rightarrow> Inr (Some (Some (UTC n)))
      | None \<Rightarrow> Inl ValidationError)"
| "UserBirthdaySerializer_example v = Inl ValidationError"

fun UserPhoneSerializer_example :: "json \<Rightarrow> exn + int \<times> int" where
  "UserPhoneSerializer_example (JObj kvs) =
     (case int_of_key kvs ''code'' of
        None \<Rightarrow> Inl ValidationError
      | Some c \<Rightarrow>
          (case int_of_key kvs ''number'' of
             None \<Rightarrow> Inl ValidationError
           | Some n \<Rightarrow> Inr (c, n)))"
| "UserPhoneSerializer_example v = Inl ValidationError"

fun UserPhoneVerificationSerializer_example :: "json \<Rightarrow> exn + string \<times> int \<times> int" where
  "UserPhoneVerificationSerializer_example (JObj kvs) =
     (case map_of kvs ''otp'' of
        Some (JStr otp) \<Rightarrow>
          (case map_of kvs ''phone'' of
             Some p \<Rightarrow>
               (case UserPhoneSerializer_example p of
                  Inl e \<Rightarrow> Inl e
                | Inr (c, n) \<Rightarrow> Inr (otp, c, n))
           | None \<Rightarrow> Inl ValidationError)
      | _ \<Rightarrow> Inl ValidationError)"
| "UserPhoneVerificationSerializer_example v = Inl ValidationError"

fun json_of_birthday :: "datetime option \<Rightarrow> json" where
  "json_of_birthday None = JNull"
| "json_of_birthday (Some (UTC t)) = JNum t"

fun json_of_phone :: "Phone option \<Rightarrow> json" where
  "json_of_phone None = JNull"
| "json_of_phone (Some p) = JObj [(''code'', JNum (code p)), (''number'', JNum (phone p))]"

definition UserSerializer_example :: "User \<Rightarrow> json" where
  "UserSerializer_example u =
     JObj [(''telegram_id'', JStr (telegram_id u)),
           (''birthday'', json_of_birthday (birthday u)),
           (''phone'', json_of_phone (user_phone u))]"

definition new_user :: User where
  "new_user = \<lparr>telegram_id = ''42'', birthday = None, user_phone = None\<rparr>"

text \<open>The states and bodies of a verification of the phone +7 912 with the code 4297.\<close>

definition pending_account :: account where
  "pending_account =
     \<lparr>user = new_user,
      pending = Some \<lparr>pv_otp = ''4297'', pv_code = 7, pv_number = 912, issued_at = 0\<rparr>\<rparr>"

definition verified_account :: account where
  "verified_account =
     \<lparr>user = \<lparr>telegram_id = ''42'', birthday = None,
               user_phone = Some \<lparr>code = 7, phone = 912\<rparr>\<rparr>,
      pending = None\<rparr>"

definition confirm_body :: json where
  "confirm_body =
     JObj [(''otp'', JStr ''4297''), (''phone'', JObj [(''code'', JNum 7), (''number'', JNum 912)])]"

definition request_body :: json where
  "request_body = JObj [(''code'', JNum 7), (''number'', JNum 912)]"

section \<open>Properties of the message log\<close>

subsection \<open>Rows of one chat\<close>








subsection \<open>One request\<close>

lemma post_fields:
  "TelegramWebhookAPIView_post cf tf update rows =
     (case message_fields update of
        Inl e \<Rightarrow> (Inl e, rows)
      | Inr None \<Rightarrow> (Inr ok_response, rows)
      | Inr (Some (cid, txt, ts)) \<Rightarrow>
          (case update_or_create cf tf cid txt ts rows of
             Inl e \<Rightarrow> (Inl e, rows)
           | Inr rows' \<Rightarrow> (Inr ok_response, rows')))"
  unfolding TelegramWebhookAPIView_post_def message_fields_def
  by (simp split: sum.split bool.split)


lemma post_response:
  "fst (TelegramWebhookAPIView_post cf tf update rows) = Inr r \<Longrightarrow> r = ok_response"
  unfolding post_fields by (auto split: sum.splits option.splits prod.splits)

lemma post_exception:
  "fst (TelegramWebhookAPIView_post cf tf update rows) = Inl e \<Longrightarrow>
   snd (TelegramWebhookAPIView_post cf tf update rows) = rows"
  unfolding post_fields by (auto split: sum.splits option.splits prod.splits)





text \<open>
  Claim C1, as amended. A request to the webhook either is answered with status 200 and
  the body \<^verbatim>\<open>{"status": "ok"}\<close>, or ends in the exception of the step that raised, and then
  the message log is as it was. A payload that holds no \<^verbatim>\<open>message\<close> is answered with 200
  and leaves the message log as it was. The view absorbs no exception.
\<close>

theorem webhook_acknowledges:
  "(py_contains ''message'' update = Inr False \<longrightarrow>
      TelegramWebhookAPIView_post cf tf update rows = (Inr ok_response, rows)) \<and>
   (\<forall>r. fst (TelegramWebhookAPIView_post cf tf update rows) = Inr r \<longrightarrow> r = ok_response) \<and>
   (\<forall>e. fst (TelegramWebhookAPIView_post cf tf update rows) = Inl e \<longrightarrow>
      snd (TelegramWebhookAPIView_post cf tf update rows) = rows)"
proof (intro conjI impI allI)
  assume "py_contains ''message'' update = Inr False"
  then show "TelegramWebhookAPIView_post cf tf update rows = (Inr ok_response, rows)"
    by (simp add: TelegramWebhookAPIView_post_def)
next
  fix r assume "fst (TelegramWebhookAPIView_post cf tf update rows) = Inr r"
  then show "r = ok_response" by (rule post_response)
next
  fix e assume "fst (TelegramWebhookAPIView_post cf tf update rows) = Inl e"
  then show "snd (TelegramWebhookAPIView_post cf tf update rows) = rows"
    by (rule post_exception)
qed

text \<open>The theorem at a payload without message, on a table that holds a row.\<close>

theorem webhook_acknowledges_witness:
  "py_contains ''message'' (JObj [(''update_id'', JNum 7)]) = Inr False \<and>
   TelegramWebhookAPIView_post integer_column text_column (JObj [(''update_id'', JNum 7)])
     [\<lparr>chat_id = 42, log_text = ''hi'', sent_at = UTC 1700000000\<rparr>] =
     (Inr ok_response, [\<lparr>chat_id = 42, log_text = ''hi'', sent_at = UTC 1700000000\<rparr>])"
  using webhook_acknowledges [of "JObj [(''update_id'', JNum 7)]" integer_column text_column
    "[\<lparr>chat_id = 42, log_text = ''hi'', sent_at = UTC 1700000000\<rparr>]"]
  by simp

text \<open>
  Claim C1 as stated fails: the payload \<^verbatim>\<open>{"message": {}}\<close> is not acknowledged;
  \<^verbatim>\<open>message['chat']\<close> raises KeyError, and the exception leaves the view.
\<close>

theorem webhook_malformed_message_raises:
  "TelegramWebhookAPIView_post integer_column text_column (JObj [(''message'', JObj [])]) [] =
     (Inl (KeyError ''chat''), [])"
  by (simp add: TelegramWebhookAPIView_post_def)

subsection \<open>A sequence of requests\<close>










section \<open>Properties of the one-time code\<close>

lemma choice_digits:
  "choice ''123456789'' r = Inr (''123456789'' ! (r mod 9))"
  by (simp add: choice_def)

lemma digit_nth_in: "i < 9 \<Longrightarrow> ''123456789'' ! i \<in> set ''123456789''"
  by (rule nth_mem) simp

lemma join_choices_map:
  "join_choices draw is = Inr (map (\<lambda>i. ''123456789'' ! (draw i mod 9)) is)"
  by (induction "is") (simp_all add: choice_digits)

lemma get_otp_map:
  "get_otp draw n = Inr (map (\<lambda>i. ''123456789'' ! (draw i mod 9)) [0..<nat n])"
  by (simp add: get_otp_def join_choices_map)

lemma get_otp_example: "get_otp (\<lambda>i. 7 * i + 3) 4 = Inr ''4297''"
  by code_simp

text \<open>
  Claim C3. For every configured length \<open>L \<ge> 1\<close> and whatever the random source
  delivers, the generator returns a string of exactly \<open>L\<close> characters, each of them one
  of the digits 1 to 9 and none of them 0, and the character at each position is chosen
  by that position's own draw of the source alone.
\<close>

theorem get_otp_digits:
  assumes "1 \<le> L"
  shows "\<exists>otp. get_otp draw L = Inr otp \<and> int (length otp) = L \<and>
     (\<forall>c \<in> set otp. c \<in> set ''123456789'') \<and> CHR ''0'' \<notin> set otp \<and>
     (\<forall>i < length otp. otp ! i = ''123456789'' ! (draw i mod 9))"
proof -
  let ?otp = "map (\<lambda>i. ''123456789'' ! (draw i mod 9)) [0..<nat L]"
  have len: "int (length ?otp) = L" using assms by simp
  have dig: "\<forall>c \<in> set ?otp. c \<in> set ''123456789''"
  proof
    fix c assume "c \<in> set ?otp"
    then obtain i where "c = ''123456789'' ! (draw i mod 9)" by auto
    moreover have "draw i mod 9 < 9" by simp
    ultimately show "c \<in> set ''123456789''" using digit_nth_in by simp
  qed
  have zero: "CHR ''0'' \<notin> set ''123456789''" by simp
  with dig have nz: "CHR ''0'' \<notin> set ?otp" by blast
  have nth: "\<forall>i < length ?otp. ?otp ! i = ''123456789'' ! (draw i mod 9)" by simp
  from len dig nz nth show ?thesis
    unfolding get_otp_map by blast
qed

text \<open>The theorem at length 4, on a source that delivers 3, 10, 17 and 24.\<close>

theorem get_otp_digits_witness:
  "(1::int) \<le> 4 \<and> get_otp (\<lambda>i. 7 * i + 3) 4 = Inr ''4297''"
  using get_otp_digits [of 4 "\<lambda>i. 7 * i + 3"] get_otp_example
  by simp

section \<open>Properties of the birthday view\<close>

lemma birthday_post_set:
  "birthday u = Some d \<Longrightarrow>
   UserBirthdayAPIView_post S U body u = (Inl BirthdayAlreadyRegistered, u)"
  by (simp add: UserBirthdayAPIView_post_def)

lemma birthday_requests_set:
  "birthday u = Some d \<Longrightarrow>
   birthday_requests S U bodies u =
     (replicate (length bodies) (Inl BirthdayAlreadyRegistered), u)"
  by (induction bodies) (simp_all add: birthday_post_set)

text \<open>
  Claim C5. For a user whose birthday is not set, a request whose body validates to a
  birthday \<open>d\<close> succeeds and sets the birthday to \<open>d\<close>; every later request on that
  user, whatever its body and the serializers, fails with \<open>BirthdayAlreadyRegistered\<close>,
  and after all of them the user, and so the stored birthday \<open>d\<close>, is unchanged.
\<close>

theorem birthday_write_once:
  assumes "birthday u = None"
    and "S body = Inr (Some (Some d))"
  shows "UserBirthdayAPIView_post S U body u =
       (Inr \<lparr>data = U (u\<lparr>birthday := Some d\<rparr>), status = 200\<rparr>, u\<lparr>birthday := Some d\<rparr>) \<and>
     birthday_requests S' U' bodies (u\<lparr>birthday := Some d\<rparr>) =
       (replicate (length bodies) (Inl BirthdayAlreadyRegistered), u\<lparr>birthday := Some d\<rparr>)"
proof -
  have "birthday (u\<lparr>birthday := Some d\<rparr>) = Some d" by simp
  then have "birthday_requests S' U' bodies (u\<lparr>birthday := Some d\<rparr>) =
       (replicate (length bodies) (Inl BirthdayAlreadyRegistered), u\<lparr>birthday := Some d\<rparr>)"
    by (rule birthday_requests_set)
  with assms show ?thesis
    by (simp add: UserBirthdayAPIView_post_def Let_def)
qed

text \<open>
  The theorem at a new user who sets the birthday 2000-01-01 and then tries another
  date and an empty body.
\<close>

theorem birthday_write_once_witness:
  "birthday new_user = None \<and>
   UserBirthdaySerializer_example (JObj [(''birthday'', JNum 946684800)]) =
     Inr (Some (Some (UTC 946684800))) \<and>
   UserBirthdayAPIView_post UserBirthdaySerializer_example UserSerializer_example
     (JObj [(''birthday'', JNum 946684800)]) new_user =
     (Inr \<lparr>data = JObj [(''telegram_id'', JStr ''42''), (''birthday'', JNum 946684800),
                         (''phone'', JNull)],
           status = 200\<rparr>,
      \<lparr>telegram_id = ''42'', birthday = Some (UTC 946684800), user_phone = None\<rparr>) \<and>
   birthday_requests UserBirthdaySerializer_example UserSerializer_example
     [JObj [(''birthday'', JNum 0)], JObj []]
     \<lparr>telegram_id = ''42'', birthday = Some (UTC 946684800), user_phone = None\<rparr> =
     ([Inl BirthdayAlreadyRegistered, Inl BirthdayAlreadyRegistered],
      \<lparr>telegram_id = ''42'', birthday = Some (UTC 946684800), user_phone = None\<rparr>)"
  using birthday_write_once [of new_user UserBirthdaySerializer_example
      "JObj [(''birthday'', JNum 946684800)]" "UTC 946684800" UserSerializer_example
      UserBirthdaySerializer_example UserSerializer_example
      "[JObj [(''birthday'', JNum 0)], JObj []]"]
  by (simp add: new_user_def UserSerializer_example_def)

text \<open>
  Claim C10. For a user whose birthday is set, a birthday request fails with
  \<open>BirthdayAlreadyRegistered\<close> and leaves the user unchanged, for every body and every
  serializer: the body is not validated before, so a body the serializer rejects gets
  the same error and not a validation error.
\<close>

theorem birthday_checked_before_validation:
  assumes "birthday u = Some d"
  shows "UserBirthdayAPIView_post S U body u = (Inl BirthdayAlreadyRegistered, u)"
  using assms by (simp add: UserBirthdayAPIView_post_def)

text \<open>The theorem at a body that is not an object, which the serializer rejects.\<close>

theorem birthday_checked_before_validation_witness:
  "birthday (new_user\<lparr>birthday := Some (UTC 946684800)\<rparr>) = Some (UTC 946684800) \<and>
   UserBirthdaySerializer_example JNull = Inl ValidationError \<and>
   UserBirthdayAPIView_post UserBirthdaySerializer_example UserSerializer_example JNull
     (new_user\<lparr>birthday := Some (UTC 946684800)\<rparr>) =
     (Inl BirthdayAlreadyRegistered, new_user\<lparr>birthday := Some (UTC 946684800)\<rparr>)"
  using birthday_checked_before_validation [of "new_user\<lparr>birthday := Some (UTC 946684800)\<rparr>"
      "UTC 946684800" UserBirthdaySerializer_example UserSerializer_example JNull]
  by simp

section \<open>Properties of the phone table\<close>

text \<open>The values that a \<^verbatim>\<open>Phone\<close> row stores as they are given are those of the range.\<close>

lemma Phone_save_exact_iff:
  "Phone_save c p = Inr \<lparr>code = c, phone = p\<rparr> \<longleftrightarrow>
     0 \<le> c \<and> c \<le> 32767 \<and> 0 \<le> p \<and> p \<le> 32767"
  by (auto simp add: Phone_save_def PositiveSmallIntegerField_def)



section \<open>Properties of the phone verification\<close>

text \<open>
  Claim C4. For a user with a pending verification that has not expired, a confirmation
  whose body carries the pending code and the pending phone succeeds: the phone is stored
  on the user (whatever phone the user had before), the response is the profile of the
  updated user, and the pending verification is cleared; the same confirmation sent
  again fails with \<open>NoPendingVerification\<close> and changes nothing.
\<close>

theorem verify_code_single_use:
  assumes "pending acct = Some pv"
    and "\<not> expired pv"
    and "S body = Inr (pv_otp pv, pv_code pv, pv_number pv)"
  shows "\<exists>acct'.
     UserPhoneUpdateView_patch S (verify_code expired) U body acct =
       (Inr \<lparr>data = U (user acct'), status = 200\<rparr>, acct') \<and>
     user_phone (user acct') = Some \<lparr>code = pv_code pv, phone = pv_number pv\<rparr> \<and>
     pending acct' = None \<and>
     UserPhoneUpdateView_patch S (verify_code expired') U body acct' =
       (Inl NoPendingVerification, acct')"
proof -
  let ?acct' = "acct\<lparr>user := (user acct)\<lparr>user_phone :=
                         Some \<lparr>code = pv_code pv, phone = pv_number pv\<rparr>\<rparr>,
                     pending := None\<rparr>"
  have first: "UserPhoneUpdateView_patch S (verify_code expired) U body acct =
       (Inr \<lparr>data = U (user ?acct'), status = 200\<rparr>, ?acct')"
    using assms by (simp add: UserPhoneUpdateView_patch_def verify_code_def)
  have second: "UserPhoneUpdateView_patch S (verify_code expired') U body ?acct' =
       (Inl NoPendingVerification, ?acct')"
    using assms(3) by (simp add: UserPhoneUpdateView_patch_def verify_code_def)
  from first second show ?thesis
    by (intro exI [of _ ?acct']) simp
qed

text \<open>The theorem at a user who confirms the code 4297 for the phone +7 912 twice.\<close>

theorem verify_code_single_use_witness:
  "pending pending_account =
     Some \<lparr>pv_otp = ''4297'', pv_code = 7, pv_number = 912, issued_at = 0\<rparr> \<and>
   UserPhoneVerificationSerializer_example confirm_body = Inr (''4297'', 7, 912) \<and>
   UserPhoneUpdateView_patch UserPhoneVerificationSerializer_example
     (verify_code (\<lambda>pv. False)) UserSerializer_example confirm_body pending_account =
     (Inr \<lparr>data = JObj [(''telegram_id'', JStr ''42''), (''birthday'', JNull),
                         (''phone'', JObj [(''code'', JNum 7), (''number'', JNum 912)])],
           status = 200\<rparr>,
      verified_account) \<and>
   UserPhoneUpdateView_patch UserPhoneVerificationSerializer_example
     (verify_code (\<lambda>pv. False)) UserSerializer_example confirm_body verified_account =
     (Inl NoPendingVerification, verified_account)"
  using verify_code_single_use [of pending_account
      "\<lparr>pv_otp = ''4297'', pv_code = 7, pv_number = 912, issued_at = 0\<rparr>" "\<lambda>pv. False"
      UserPhoneVerificationSerializer_example confirm_body UserSerializer_example "\<lambda>pv. False"]
  by (simp add: pending_account_def verified_account_def confirm_body_def new_user_def
      UserPhoneUpdateView_patch_def verify_code_def UserSerializer_example_def)

text \<open>
  Claim C6. For a request whose body validates to a phone, the generator yields a code,
  and: if the gateway fails to deliver it, for whatever cause, the request fails with the
  delivery error whose detail is \<^verbatim>\<open>Failed to send SMS:\<close> followed by the cause, and
  nothing is recorded; if the gateway delivers it, the response has status 200 and the
  body \<^verbatim>\<open>{"otp": code}\<close> with the generated code, which is recorded as pending.
\<close>

theorem otp_request_delivery:
  assumes "S body = Inr (c, n)"
  shows "\<exists>otp. get_otp draw digits = Inr otp \<and>
     (\<forall>cause. send_sms c n otp = Some cause \<longrightarrow>
        UserPhoneUpdateView_post S (request_verification draw digits send_sms now) body acct =
          (Inl (SmsDeliveryError (''Failed to send SMS: '' @ cause)), acct)) \<and>
     (send_sms c n otp = None \<longrightarrow>
        UserPhoneUpdateView_post S (request_verification draw digits send_sms now) body acct =
          (Inr \<lparr>data = JObj [(''otp'', JStr otp)], status = 200\<rparr>,
           acct\<lparr>pending :=
             Some \<lparr>pv_otp = otp, pv_code = c, pv_number = n, issued_at = now\<rparr>\<rparr>))"
proof -
  obtain otp where otp: "get_otp draw digits = Inr otp"
    by (simp add: get_otp_map)
  show ?thesis
    using assms otp
    by (intro exI [of _ otp])
       (simp add: UserPhoneUpdateView_post_def request_verification_def)
qed

text \<open>
  The theorem at a request for the phone +7 912, once with a gateway that rejects the
  number and once with a gateway that delivers.
\<close>

theorem otp_request_delivery_witness:
  "UserPhoneSerializer_example request_body = Inr (7, 912) \<and>
   UserPhoneUpdateView_post UserPhoneSerializer_example
     (request_verification (\<lambda>i. 7 * i + 3) 4 (\<lambda>c n otp. Some ''number rejected'') 0)
     request_body \<lparr>user = new_user, pending = None\<rparr> =
     (Inl (SmsDeliveryError ''Failed to send SMS: number rejected''),
      \<lparr>user = new_user, pending = None\<rparr>) \<and>
   UserPhoneUpdateView_post UserPhoneSerializer_example
     (request_verification (\<lambda>i. 7 * i + 3) 4 (\<lambda>c n otp. None) 0)
     request_body \<lparr>user = new_user, pending = None\<rparr> =
     (Inr \<lparr>data = JObj [(''otp'', JStr ''4297'')], status = 200\<rparr>, pending_account)"
  using otp_request_delivery [of UserPhoneSerializer_example request_body 7 912
      "\<lambda>i. 7 * i + 3" 4 "\<lambda>c n otp. Some ''number rejected''" 0
      "\<lparr>user = new_user, pending = None\<rparr>"]
    otp_request_delivery [of UserPhoneSerializer_example request_body 7 912
      "\<lambda>i. 7 * i + 3" 4 "\<lambda>c n otp. None" 0 "\<lparr>user = new_user, pending = None\<rparr>"]
  by (simp add: request_body_def get_otp_example pending_account_def)

section \<open>Properties of the last message\<close>




end
